theory Spec2Isabelle
  imports Complex_Main "HOL-Library.Log_Nat" "HOL-Library.Multiset"
begin

section \<open>Data model of the operator console (frontend/src/App.jsx)\<close>

text \<open>
  The component keeps five pieces of React state that matter here: the selected ticket,
  the suggestion object returned by the backend, the editable reply, the loading flag and
  the metrics object. A value that may be \<^verbatim>\<open>null\<close> or absent in the JavaScript is an
  \<open>option\<close> here; every \<^verbatim>\<open>||\<close> and \<^verbatim>\<open>??\<close> fallback of the source is a \<open>case\<close> on it.
\<close>

record ticket =
  ticket_id :: nat
  subject :: string
  body :: string

text \<open>A tag is either a bare label or an object with a \<^verbatim>\<open>tag\<close> field.\<close>

datatype tag = Bare string | Labeled string

text \<open>The body of a successful \<^verbatim>\<open>POST /suggest\<close>.\<close>

record suggestion_payload =
  p_suggestion :: "string option"
  p_explanation :: "string option"
  p_confidence :: "real option"
  p_tags :: "tag list option"

text \<open>
  A JavaScript object with string keys and integer values, as the list of its properties
  in creation order (keys distinct). The values are counts, integers below \<open>2^53\<close> in
  magnitude, each of which is a binary64 value.
\<close>

type_synonym tag_counts = "(string \<times> int) list"

record metrics =
  suggestionsShown :: nat
  suggestionsAccepted :: int
  tagCounts :: tag_counts
  responseTimes :: "int list"

text \<open>The body of a successful \<^verbatim>\<open>GET /metrics\<close>; either field may be missing.\<close>

record metrics_payload =
  suggestions_accepted :: "int option"
  tag_counts :: "tag_counts option"

text \<open>The body of \<^verbatim>\<open>POST /accept\<close>.\<close>

record decision =
  d_ticket_id :: nat
  action :: string
  d_tags :: "tag list"
  response_time_min :: int
  final_reply :: "string option"

record app_state =
  tickets :: "ticket list"
  selectedTicket :: "ticket option"
  suggestion :: "suggestion_payload option"
  editedReply :: string
  loading :: bool
  metrics :: metrics

text \<open>An awaited HTTP call either resolves with the response body or rejects.\<close>

datatype 'a response = Resolved 'a | Rejected

text \<open>What a handler does to the outside: HTTP requests, alerts, console messages.\<close>

datatype effect =
    PostSuggest nat
  | PostAccept decision
  | GetMetrics nat
  | Alert string
  | ConsoleError string

definition initial_metrics :: metrics where
  "initial_metrics =
     \<lparr>suggestionsShown = 0, suggestionsAccepted = 0, tagCounts = [], responseTimes = []\<rparr>"

definition initial_state :: app_state where
  "initial_state =
     \<lparr>tickets = [], selectedTicket = None, suggestion = None, editedReply = '''',
      loading = False, metrics = initial_metrics\<rparr>"

section \<open>JavaScript numbers\<close>

text \<open>
  A JavaScript number is an IEEE 754 binary64 value. Counts and durations are integers
  below \<open>2^53\<close>, which binary64 holds exactly, and are kept as \<open>nat\<close> and \<open>int\<close>. Each
  division, multiplication and addition that can leave the integers is followed by \<open>fl\<close>,
  the rounding of the exact result to the nearest binary64 value, a tie going to the even
  significand; subnormal results are covered, results of magnitude \<open>2^1024\<close> and more
  (which round to infinity) are not.
\<close>

definition ilog2 :: "real \<Rightarrow> int" where
  \<comment> \<open>the binary exponent of a positive real: \<open>2^e \<le> x < 2^(e+1)\<close>\<close>
  "ilog2 x = (if 1 \<le> x then bitlen \<lfloor>x\<rfloor> - 1 else - bitlen (\<lceil>1 / x\<rceil> - 1))"

definition round_half_even :: "real \<Rightarrow> int" where
  "round_half_even y =
     (let f = \<lfloor>y\<rfloor>; d = y - of_int f
      in if d < 1 / 2 then f else if 1 / 2 < d then f + 1 else if even f then f else f + 1)"

definition fl :: "real \<Rightarrow> real" where
  "fl x =
     (if x = 0 then 0
      else let e = max (ilog2 \<bar>x\<bar>) (- 1022) - 52
           in of_int (round_half_even (x / power_int 2 e)) * power_int 2 e)"

definition Math_round :: "real \<Rightarrow> int" where
  \<comment> \<open>\<^verbatim>\<open>Math.round\<close>: the nearest integer, a tie going up\<close>
  "Math_round x = \<lfloor>x + 1 / 2\<rfloor>"

section \<open>Derived dashboard values\<close>

definition acceptanceRate :: "metrics \<Rightarrow> int" where
  \<comment> \<open>\<^verbatim>\<open>Math.round((Number(accepted || 0) / shown) * 100)\<close> behind the test
      \<^verbatim>\<open>shown === 0\<close>\<close>
  "acceptanceRate m =
     (if suggestionsShown m = 0 then 0
      else Math_round
             (fl (fl (of_int (suggestionsAccepted m) / of_nat (suggestionsShown m)) * 100)))"

definition avgResponseTime :: "metrics \<Rightarrow> int" where
  \<comment> \<open>the sum that \<^verbatim>\<open>reduce\<close> builds is an integer and exact\<close>
  "avgResponseTime m =
     (if 0 < length (responseTimes m)
      then Math_round
             (fl (of_int (foldl (+) 0 (responseTimes m)) / of_nat (length (responseTimes m))))
      else 0)"

text \<open>
  \<^verbatim>\<open>Object.entries\<close> lists the own properties of an object in the order of
  OrdinaryOwnPropertyKeys: the keys that are array indices first, in ascending numeric
  order, then the other string keys in creation order. An array index is the canonical
  decimal form of an integer from \<open>0\<close> to \<open>2^32 - 2\<close>.
\<close>

definition is_digit :: "char \<Rightarrow> bool" where
  "is_digit c = (48 \<le> (of_char c :: int) \<and> (of_char c :: int) \<le> 57)"

definition decimal_value :: "string \<Rightarrow> int" where
  "decimal_value cs = foldl (\<lambda>n c. 10 * n + (of_char c - 48)) 0 cs"

definition is_array_index :: "string \<Rightarrow> bool" where
  "is_array_index cs =
     (cs \<noteq> [] \<and> list_all is_digit cs \<and> (cs = ''0'' \<or> hd cs \<noteq> CHR ''0'')
      \<and> decimal_value cs < 4294967295)"

definition Object_entries :: "tag_counts \<Rightarrow> (string \<times> int) list" where
  "Object_entries obj =
     sort_key (\<lambda>e. decimal_value (fst e)) (filter (\<lambda>e. is_array_index (fst e)) obj)
     @ filter (\<lambda>e. \<not> is_array_index (fst e)) obj"

definition sort_by_count_desc :: "(string \<times> int) list \<Rightarrow> (string \<times> int) list" where
  \<comment> \<open>\<^verbatim>\<open>.sort((a,b) => b[1] - a[1])\<close>; \<^verbatim>\<open>Array.prototype.sort\<close> is stable\<close>
  "sort_by_count_desc es = sort_key (\<lambda>e. - snd e) es"

definition topEntries :: "nat \<Rightarrow> tag_counts \<Rightarrow> (string \<times> int) list" where
  \<comment> \<open>\<^verbatim>\<open>Object.entries(...).sort(...).slice(0, n)\<close>; the source has \<open>n = 5\<close>\<close>
  "topEntries n obj = take n (sort_by_count_desc (Object_entries obj))"

definition digit_char :: "nat \<Rightarrow> char" where
  "digit_char d = ''0123456789'' ! d"

fun digits_of :: "nat \<Rightarrow> string" where
  "digits_of n =
     (if n < 10 then [digit_char n] else digits_of (n div 10) @ [digit_char (n mod 10)])"

declare digits_of.simps [simp del]

definition number_text :: "int \<Rightarrow> string" where
  \<comment> \<open>a count inside a template literal: below \<open>2^53\<close> in magnitude, where the digits
      printed for the binary64 value are the decimal digits of the integer\<close>
  "number_text i = (if 0 \<le> i then digits_of (nat i) else CHR ''-'' # digits_of (nat (- i)))"

fun join :: "string \<Rightarrow> string list \<Rightarrow> string" where
  "join sep [] = []"
| "join sep [x] = x"
| "join sep (x # y # ys) = x @ sep @ join sep (y # ys)"

definition topTags :: "metrics \<Rightarrow> string" where
  "topTags m =
     join '', ''
       (map (\<lambda>(tg, count). tg @ '' ('' @ number_text count @ '')'')
          (topEntries 5 (tagCounts m)))"

section \<open>Ticket selection and draft editing\<close>

definition selectTicket :: "ticket \<Rightarrow> app_state \<Rightarrow> app_state" where
  \<comment> \<open>the \<^verbatim>\<open>onClick\<close> of a ticket row\<close>
  "selectTicket t s = s\<lparr>selectedTicket := Some t, suggestion := None, editedReply := ''''\<rparr>"

definition editDraft :: "string \<Rightarrow> app_state \<Rightarrow> app_state" where
  \<comment> \<open>the \<^verbatim>\<open>onChange\<close> of the textarea\<close>
  "editDraft txt s = s\<lparr>editedReply := txt\<rparr>"

section \<open>Requesting a suggestion\<close>

text \<open>
  \<^verbatim>\<open>handleSuggest\<close> runs in two parts: up to the \<^verbatim>\<open>await\<close> of the POST, and from its
  settlement on. Other handlers may run in between, so the second part takes the state as
  it is when the response arrives. Nothing of the first part but the request itself is
  used by the second.
\<close>

definition handleSuggest_call :: "app_state \<Rightarrow> app_state \<times> effect list" where
  "handleSuggest_call s =
     (case selectedTicket s of
        None \<Rightarrow> (s, [])
      | Some t \<Rightarrow>
          (s\<lparr>loading := True, suggestion := None, editedReply := ''''\<rparr>,
           [PostSuggest (ticket_id t)]))"

definition reply_text :: "suggestion_payload option \<Rightarrow> string" where
  \<comment> \<open>\<^verbatim>\<open>payload?.suggestion || ""\<close>\<close>
  "reply_text payload =
     (case payload of
        None \<Rightarrow> ''''
      | Some p \<Rightarrow> (case p_suggestion p of None \<Rightarrow> '''' | Some txt \<Rightarrow> txt))"

definition recordShown :: "metrics \<Rightarrow> metrics" where
  "recordShown prev = prev\<lparr>suggestionsShown := suggestionsShown prev + 1\<rparr>"

definition handleSuggest_settle ::
  "suggestion_payload option response \<Rightarrow> app_state \<Rightarrow> app_state \<times> effect list" where
  "handleSuggest_settle res s =
     (case res of
        Resolved payload \<Rightarrow>
          (s\<lparr>suggestion := payload, editedReply := reply_text payload,
             metrics := recordShown (metrics s), loading := False\<rparr>, [])
      | Rejected \<Rightarrow>
          (s\<lparr>loading := False\<rparr>,
           [ConsoleError ''Error getting suggestion:'',
            Alert ''Error getting suggestion (see console)'']))"

definition handleSuggest ::
  "suggestion_payload option response \<Rightarrow> app_state \<Rightarrow> app_state \<times> effect list" where
  \<comment> \<open>the whole handler when nothing else runs while the request is in flight\<close>
  "handleSuggest res s =
     (case handleSuggest_call s of
        (s1, []) \<Rightarrow> (s1, [])
      | (s1, req # reqs) \<Rightarrow>
          (let (s2, out) = handleSuggest_settle res s1 in (s2, req # reqs @ out)))"

section \<open>Refreshing the metrics\<close>

definition mergeMetrics :: "metrics_payload option \<Rightarrow> metrics \<Rightarrow> metrics" where
  \<comment> \<open>the updater given to \<^verbatim>\<open>setMetrics\<close> after a \<^verbatim>\<open>GET /metrics\<close>, with
      \<^verbatim>\<open>data = res.data || {}\<close>\<close>
  "mergeMetrics rsp prev =
     (let data = (case rsp of
                    None \<Rightarrow> \<lparr>suggestions_accepted = None, tag_counts = None\<rparr>
                  | Some d \<Rightarrow> d)
      in prev\<lparr>suggestionsAccepted :=
                 (case suggestions_accepted data of
                    None \<Rightarrow> suggestionsAccepted prev
                  | Some a \<Rightarrow> a),
               tagCounts :=
                 (case tag_counts data of None \<Rightarrow> tagCounts prev | Some tc \<Rightarrow> tc)\<rparr>)"

definition poll_call :: "app_state \<Rightarrow> effect list" where
  \<comment> \<open>one tick of the 8000 ms interval\<close>
  "poll_call s = [GetMetrics (suggestionsShown (metrics s))]"

definition poll_settle ::
  "metrics_payload option response \<Rightarrow> app_state \<Rightarrow> app_state \<times> effect list" where
  "poll_settle res s =
     (case res of
        Resolved rsp \<Rightarrow> (s\<lparr>metrics := mergeMetrics rsp (metrics s)\<rparr>, [])
      | Rejected \<Rightarrow> (s, []))"

section \<open>Recording a decision\<close>

definition simulatedResponseMinutes :: "real \<Rightarrow> int" where
  \<comment> \<open>\<^verbatim>\<open>Math.round(5 + Math.random() * 55)\<close>, the draw of \<^verbatim>\<open>Math.random()\<close> given\<close>
  "simulatedResponseMinutes rnd = Math_round (fl (5 + fl (rnd * 55)))"

definition tags_or_empty :: "suggestion_payload \<Rightarrow> tag list" where
  \<comment> \<open>\<^verbatim>\<open>suggestion.tags || []\<close>\<close>
  "tags_or_empty sg = (case p_tags sg of None \<Rightarrow> [] | Some ts \<Rightarrow> ts)"

text \<open>
  The values that successive calls of \<^verbatim>\<open>Math.random()\<close> return form a sequence; the
  state of the generator is the number of calls made so far.
\<close>

definition Math_random :: "(nat \<Rightarrow> real) \<Rightarrow> nat \<Rightarrow> real \<times> nat" where
  "Math_random draws n = (draws n, Suc n)"

text \<open>
  What the part of an accept handler before its first \<^verbatim>\<open>await\<close> fixes for the rest of
  the call: the payload, the simulated minutes and the shown-count of the render the
  handler was created in. It is returned with the state of the generator: the guard
  returns before any draw, and past the guard \<^verbatim>\<open>Math.random()\<close> is called once.
\<close>

record accept_call =
  ac_payload :: decision
  ac_minutes :: int
  ac_total_shown :: nat

definition accept_call_of ::
  "string \<Rightarrow> (suggestion_payload \<Rightarrow> app_state \<Rightarrow> string option) \<Rightarrow> (nat \<Rightarrow> real) \<Rightarrow> nat
     \<Rightarrow> app_state \<Rightarrow> accept_call option \<times> nat" where
  "accept_call_of act final draws n s =
     (case suggestion s of
        None \<Rightarrow> (None, n)
      | Some sg \<Rightarrow>
          (case selectedTicket s of
             None \<Rightarrow> (None, n)
           | Some t \<Rightarrow>
               (let (rnd, n') = Math_random draws n;
                    minutes = simulatedResponseMinutes rnd
                in (Some \<lparr>ac_payload =
                            \<lparr>d_ticket_id = ticket_id t, action = act,
                             d_tags = tags_or_empty sg, response_time_min = minutes,
                             final_reply = final sg s\<rparr>,
                          ac_minutes = minutes,
                          ac_total_shown = suggestionsShown (metrics s)\<rparr>, n'))))"

definition recordDuration :: "int \<Rightarrow> metrics \<Rightarrow> metrics" where
  "recordDuration minutes prev = prev\<lparr>responseTimes := responseTimes prev @ [minutes]\<rparr>"

definition accept_posted ::
  "string \<times> string \<Rightarrow> accept_call \<Rightarrow> unit response \<Rightarrow> app_state \<Rightarrow> app_state \<times> effect list" where
  \<comment> \<open>from the settlement of \<^verbatim>\<open>POST /accept\<close> to the \<^verbatim>\<open>await\<close> of \<^verbatim>\<open>GET /metrics\<close>\<close>
  "accept_posted msgs c res s =
     (case res of
        Resolved _ \<Rightarrow>
          (s\<lparr>metrics := recordDuration (ac_minutes c) (metrics s)\<rparr>,
           [GetMetrics (ac_total_shown c)])
      | Rejected \<Rightarrow> (s, [ConsoleError (fst msgs), Alert (snd msgs)]))"

definition accept_refreshed ::
  "string \<times> string \<Rightarrow> metrics_payload option response \<Rightarrow> app_state \<Rightarrow> app_state \<times> effect list" where
  \<comment> \<open>from the settlement of \<^verbatim>\<open>GET /metrics\<close> to the end of the handler\<close>
  "accept_refreshed msgs res s =
     (case res of
        Resolved rsp \<Rightarrow>
          (s\<lparr>metrics := mergeMetrics rsp (metrics s), suggestion := None,
             editedReply := ''''\<rparr>, [])
      | Rejected \<Rightarrow> (s, [ConsoleError (fst msgs), Alert (snd msgs)]))"

definition accept_run ::
  "string \<times> string \<Rightarrow> accept_call option \<Rightarrow> unit response \<Rightarrow> metrics_payload option response
     \<Rightarrow> app_state \<Rightarrow> app_state \<times> effect list" where
  \<comment> \<open>an accept handler from start to end when nothing else runs in between; the second
      response is looked at only when the first call resolved\<close>
  "accept_run msgs call posted refreshed s =
     (case call of
        None \<Rightarrow> (s, [])
      | Some c \<Rightarrow>
          (let (s1, out1) = accept_posted msgs c posted s
           in case posted of
                Rejected \<Rightarrow> (s1, PostAccept (ac_payload c) # out1)
              | Resolved _ \<Rightarrow>
                  (let (s2, out2) = accept_refreshed msgs refreshed s1
                   in (s2, PostAccept (ac_payload c) # out1 @ out2))))"

definition unchanged_msgs :: "string \<times> string" where
  \<comment> \<open>what the \<^verbatim>\<open>catch\<close> of \<^verbatim>\<open>handleAcceptUnchanged\<close> logs and alerts\<close>
  "unchanged_msgs = (''Error accepting suggestion:'', ''Failed to record accept. See console.'')"

definition edited_msgs :: "string \<times> string" where
  "edited_msgs =
     (''Error accepting edited reply:'', ''Failed to record edited accept. See console.'')"

definition handleAcceptUnchanged_draw ::
  "(nat \<Rightarrow> real) \<Rightarrow> nat \<Rightarrow> app_state \<Rightarrow> accept_call option \<times> nat" where
  "handleAcceptUnchanged_draw draws n s =
     accept_call_of ''accepted'' (\<lambda>sg s. p_suggestion sg) draws n s"

definition handleAcceptEdited_draw ::
  "(nat \<Rightarrow> real) \<Rightarrow> nat \<Rightarrow> app_state \<Rightarrow> accept_call option \<times> nat" where
  "handleAcceptEdited_draw draws n s =
     accept_call_of ''edited'' (\<lambda>sg s. Some (editedReply s)) draws n s"

text \<open>The same with the value that \<^verbatim>\<open>Math.random()\<close> returns given.\<close>

definition handleAcceptUnchanged_call :: "real \<Rightarrow> app_state \<Rightarrow> accept_call option" where
  "handleAcceptUnchanged_call rnd s = fst (handleAcceptUnchanged_draw (\<lambda>i. rnd) 0 s)"

definition handleAcceptEdited_call :: "real \<Rightarrow> app_state \<Rightarrow> accept_call option" where
  "handleAcceptEdited_call rnd s = fst (handleAcceptEdited_draw (\<lambda>i. rnd) 0 s)"

definition handleAcceptUnchanged ::
  "real \<Rightarrow> unit response \<Rightarrow> metrics_payload option response \<Rightarrow> app_state
     \<Rightarrow> app_state \<times> effect list" where
  "handleAcceptUnchanged rnd posted refreshed s =
     accept_run unchanged_msgs (handleAcceptUnchanged_call rnd s) posted refreshed s"

definition handleAcceptEdited ::
  "real \<Rightarrow> unit response \<Rightarrow> metrics_payload option response \<Rightarrow> app_state
     \<Rightarrow> app_state \<times> effect list" where
  "handleAcceptEdited rnd posted refreshed s =
     accept_run edited_msgs (handleAcceptEdited_call rnd s) posted refreshed s"

text \<open>The two kinds of finalisation, and the handler of each.\<close>

datatype kind = Unchanged | Edited

fun finalize ::
  "kind \<Rightarrow> real \<Rightarrow> unit response \<Rightarrow> metrics_payload option response \<Rightarrow> app_state
     \<Rightarrow> app_state \<times> effect list" where
  "finalize Unchanged = handleAcceptUnchanged"
| "finalize Edited = handleAcceptEdited"

fun finalize_call :: "kind \<Rightarrow> real \<Rightarrow> app_state \<Rightarrow> accept_call option" where
  "finalize_call Unchanged = handleAcceptUnchanged_call"
| "finalize_call Edited = handleAcceptEdited_call"

fun finalize_draw ::
  "kind \<Rightarrow> (nat \<Rightarrow> real) \<Rightarrow> nat \<Rightarrow> app_state \<Rightarrow> accept_call option \<times> nat" where
  "finalize_draw Unchanged = handleAcceptUnchanged_draw"
| "finalize_draw Edited = handleAcceptEdited_draw"

section \<open>Example states\<close>

definition ticket1 :: ticket where
  "ticket1 = \<lparr>ticket_id = 1, subject = ''Refund'', body = ''I was charged twice.''\<rparr>"

definition ticket2 :: ticket where
  "ticket2 = \<lparr>ticket_id = 2, subject = ''Login'', body = ''I cannot sign in.''\<rparr>"

definition suggestion1 :: suggestion_payload where
  "suggestion1 =
     \<lparr>p_suggestion = Some ''We have refunded the second charge.'',
      p_explanation = Some ''duplicate payment'', p_confidence = Some (9 / 10),
      p_tags = Some [Bare ''billing'']\<rparr>"

definition ready_state :: app_state where
  \<comment> \<open>ticket 1 selected and its suggestion shown\<close>
  "ready_state =
     fst (handleSuggest (Resolved (Some suggestion1)) (selectTicket ticket1 initial_state))"

section \<open>Rounding to binary64\<close>

text \<open>
  The exponent found by \<open>ilog2\<close> brackets its argument, rounding to an integer moves a
  value by at most one half and never across an integer, and so \<open>fl\<close> has a relative
  error of at most \<open>2^-53\<close> on normal numbers and never crosses an integer below
  \<open>2^53\<close>.
\<close>

lemma ilog2_ge1:
  assumes "1 \<le> x"
  shows "power_int 2 (ilog2 x) \<le> x \<and> x < power_int 2 (ilog2 x + 1)"
proof -
  define n where "n = \<lfloor>x\<rfloor>"
  have n: "0 < n" using assms by (simp add: n_def)
  have b: "2 ^ nat (bitlen n - 1) \<le> n" "n < 2 ^ nat (bitlen n)"
    using bitlen_bounds [OF n] by auto
  have bpos: "1 \<le> bitlen n"
    using n bitlen_eq_zero_iff [of n] bitlen_nonneg [of n] by linarith
  have il: "ilog2 x = bitlen n - 1" using assms by (simp add: ilog2_def n_def)
  have "real_of_int (2 ^ nat (bitlen n - 1)) \<le> real_of_int n" using b(1) by linarith
  also have "\<dots> \<le> x" by (simp add: n_def)
  finally have lo: "power_int 2 (ilog2 x) \<le> x" using bpos by (simp add: il power_int_def)
  have "x < real_of_int n + 1" by (simp add: n_def)
  also have "\<dots> \<le> real_of_int (2 ^ nat (bitlen n))" using b(2) by linarith
  finally have hi: "x < power_int 2 (ilog2 x + 1)" using bpos by (simp add: il power_int_def)
  from lo hi show ?thesis ..
qed

lemma ilog2_lt1:
  assumes "0 < x" and "x < 1"
  shows "power_int 2 (ilog2 x) \<le> x \<and> x < power_int 2 (ilog2 x + 1)"
proof -
  define y where "y = 1 / x"
  define m where "m = \<lceil>y\<rceil> - 1"
  have y: "1 < y" using assms by (simp add: y_def)
  have m: "0 < m" using y by (simp add: m_def)
  have my: "real_of_int m < y" "y \<le> real_of_int m + 1"
    using ceiling_correct [of y] by (simp_all add: m_def)
  have b: "2 ^ nat (bitlen m - 1) \<le> m" "m < 2 ^ nat (bitlen m)"
    using bitlen_bounds [OF m] by auto
  have bpos: "1 \<le> bitlen m"
    using m bitlen_eq_zero_iff [of m] bitlen_nonneg [of m] by linarith
  have il: "ilog2 x = - bitlen m" using assms by (simp add: ilog2_def m_def y_def)
  have "y \<le> real_of_int (2 ^ nat (bitlen m))" using my(2) b(2) by linarith
  then have "y \<le> 2 ^ nat (bitlen m)" by simp
  then have "1 / 2 ^ nat (bitlen m) \<le> x"
    using assms by (simp add: y_def field_simps)
  then have lo: "power_int 2 (ilog2 x) \<le> x"
    using bpos by (simp add: il power_int_def field_simps)
  have "real_of_int (2 ^ nat (bitlen m - 1)) < y" using my(1) b(1) by linarith
  then have "2 ^ nat (bitlen m - 1) < y" by simp
  then have "x < 1 / 2 ^ nat (bitlen m - 1)"
    using assms by (simp add: y_def field_simps)
  moreover have "power_int (2::real) (ilog2 x + 1) = 1 / 2 ^ nat (bitlen m - 1)"
    using bpos by (auto simp: il power_int_def field_simps nat_diff_distrib)
  ultimately have hi: "x < power_int 2 (ilog2 x + 1)" by simp
  from lo hi show ?thesis ..
qed

lemma ilog2_bounds:
  "0 < x \<Longrightarrow> power_int 2 (ilog2 x) \<le> x \<and> x < power_int 2 (ilog2 x + 1)"
  using ilog2_ge1 [of x] ilog2_lt1 [of x] by (cases "1 \<le> x") auto

lemma round_half_even_of_int: "round_half_even (of_int n) = n"
  by (simp add: round_half_even_def)

lemma round_half_even_error: "\<bar>of_int (round_half_even y) - y\<bar> \<le> 1 / 2"
  unfolding round_half_even_def Let_def
  using floor_correct [of y] by (auto split: if_splits)

lemma round_half_even_le: "y \<le> of_int n \<Longrightarrow> round_half_even y \<le> n"
proof -
  assume a: "y \<le> of_int n"
  have f: "\<lfloor>y\<rfloor> \<le> n" using a by (simp add: floor_le_iff)
  show ?thesis
  proof (cases "\<lfloor>y\<rfloor> = n")
    case True
    then have "y = of_int n" using a floor_correct [of y] by linarith
    then show ?thesis by (simp add: round_half_even_of_int)
  next
    case False
    then have "\<lfloor>y\<rfloor> + 1 \<le> n" using f by linarith
    then show ?thesis by (simp add: round_half_even_def Let_def)
  qed
qed

lemma round_half_even_ge: "of_int n \<le> y \<Longrightarrow> n \<le> round_half_even y"
proof -
  assume a: "of_int n \<le> y"
  then have "n \<le> \<lfloor>y\<rfloor>" by (simp add: le_floor_iff)
  then show ?thesis by (simp add: round_half_even_def Let_def)
qed

lemma fl_pos_unfold:
  assumes "0 < x"
  shows "fl x = of_int (round_half_even (x / power_int 2 (max (ilog2 x) (- 1022) - 52)))
                * power_int 2 (max (ilog2 x) (- 1022) - 52)"
  using assms by (simp add: fl_def Let_def)

lemma fl_error:
  assumes "0 < x"
  shows "\<bar>fl x - x\<bar> \<le> power_int 2 (max (ilog2 x) (- 1022) - 52) / 2"
proof -
  define e where "e = max (ilog2 x) (- 1022) - 52"
  define p :: real where "p = power_int 2 e"
  have p: "0 < p" by (simp add: p_def)
  have "\<bar>of_int (round_half_even (x / p)) - x / p\<bar> \<le> 1 / 2"
    by (rule round_half_even_error)
  then have "\<bar>of_int (round_half_even (x / p)) - x / p\<bar> * p \<le> 1 / 2 * p"
    using p by (simp only: mult_le_cancel_right_pos)
  moreover have "(of_int (round_half_even (x / p)) - x / p) * p
      = of_int (round_half_even (x / p)) * p - x"
    using p by (simp add: field_simps)
  then have "\<bar>of_int (round_half_even (x / p)) - x / p\<bar> * p
      = \<bar>of_int (round_half_even (x / p)) * p - x\<bar>"
    using p abs_mult [of "of_int (round_half_even (x / p)) - x / p" p] by simp
  ultimately show ?thesis
    using assms by (simp add: fl_pos_unfold e_def [symmetric] p_def [symmetric])
qed

lemma ilog2_ge:
  assumes "power_int 2 k \<le> x"
  shows "k \<le> ilog2 x"
proof (rule ccontr)
  assume "\<not> k \<le> ilog2 x"
  then have "ilog2 x + 1 \<le> k" by simp
  then have "power_int (2::real) (ilog2 x + 1) \<le> power_int 2 k"
    by (intro power_int_increasing) simp_all
  moreover have "0 < x" using assms zero_less_power_int [of "2::real" k] by linarith
  ultimately show False using ilog2_bounds [of x] assms by linarith
qed

lemma ilog2_less:
  assumes "0 < x" and "x < power_int 2 k"
  shows "ilog2 x < k"
proof (rule ccontr)
  assume "\<not> ilog2 x < k"
  then have "k \<le> ilog2 x" by simp
  then have "power_int (2::real) k \<le> power_int 2 (ilog2 x)"
    by (intro power_int_increasing) simp_all
  then show False using ilog2_bounds [of x] assms by linarith
qed

lemma fl_relative_error:
  assumes "power_int 2 (- 1022) \<le> x"
  shows "\<bar>fl x - x\<bar> \<le> x / 2 ^ 53"
proof -
  have x: "0 < x" using assms zero_less_power_int [of "2::real" "- 1022"] by linarith
  have k: "- 1022 \<le> ilog2 x" using assms by (rule ilog2_ge)
  then have m: "max (ilog2 x) (- 1022) = ilog2 x" by simp
  have "power_int (2::real) (ilog2 x - 52) / 2 = power_int 2 (ilog2 x) / 2 ^ 53"
    by (simp add: power_int_diff)
  also have "\<dots> \<le> x / 2 ^ 53"
    using ilog2_bounds [OF x] by (simp add: divide_right_mono)
  finally show ?thesis using fl_error [OF x] by (simp add: m)
qed

lemma fl_between_ints:
  assumes "0 \<le> x" and "of_int n \<le> x" and "x \<le> of_int m" and "x < 2 ^ 53"
  shows "of_int n \<le> fl x \<and> fl x \<le> of_int m"
proof (cases "x = 0")
  case True
  then show ?thesis using assms by (simp add: fl_def)
next
  case False
  then have x: "0 < x" using assms(1) by simp
  define e where "e = max (ilog2 x) (- 1022) - 52"
  define j where "j = nat (- e)"
  have "ilog2 x < 53" using x assms(4) by (intro ilog2_less) simp_all
  then have e: "e \<le> 0" by (simp add: e_def)
  then have p: "power_int (2::real) e = 1 / 2 ^ j"
    by (cases "e = 0") (simp_all add: j_def power_int_def field_simps)
  have flx: "fl x = of_int (round_half_even (x * 2 ^ j)) / 2 ^ j"
    using x by (simp add: fl_pos_unfold e_def [symmetric] p)
  have "x * 2 ^ j \<le> of_int (m * 2 ^ j)" using assms(3) by simp
  then have "round_half_even (x * 2 ^ j) \<le> m * 2 ^ j" by (rule round_half_even_le)
  then have "real_of_int (round_half_even (x * 2 ^ j)) \<le> real_of_int (m * 2 ^ j)"
    by (simp only: of_int_le_iff)
  then have hi: "fl x \<le> of_int m" by (simp add: flx field_simps)
  have "of_int (n * 2 ^ j) \<le> x * 2 ^ j" using assms(2) by simp
  then have "n * 2 ^ j \<le> round_half_even (x * 2 ^ j)" by (rule round_half_even_ge)
  then have "real_of_int (n * 2 ^ j) \<le> real_of_int (round_half_even (x * 2 ^ j))"
    by (simp only: of_int_le_iff)
  then have lo: "of_int n \<le> fl x" by (simp add: flx field_simps)
  from lo hi show ?thesis ..
qed

lemma simulatedResponseMinutes_range:
  assumes "0 \<le> rnd" and "rnd < 1"
  shows "5 \<le> simulatedResponseMinutes rnd \<and> simulatedResponseMinutes rnd \<le> 60"
proof -
  have "of_int 0 \<le> fl (rnd * 55) \<and> fl (rnd * 55) \<le> of_int 55"
    using assms by (intro fl_between_ints) simp_all
  then have y: "0 \<le> fl (rnd * 55)" "fl (rnd * 55) \<le> 55" by simp_all
  have "of_int 5 \<le> fl (5 + fl (rnd * 55)) \<and> fl (5 + fl (rnd * 55)) \<le> of_int 60"
    using y by (intro fl_between_ints) simp_all
  then have "5 \<le> fl (5 + fl (rnd * 55))" "fl (5 + fl (rnd * 55)) \<le> 60" by simp_all
  then show ?thesis
    unfolding simulatedResponseMinutes_def Math_round_def
    by (simp add: le_floor_iff floor_le_iff)
qed

lemma rate_error:
  fixes a :: int and s :: nat
  assumes a: "0 < a" "a \<le> 2 ^ 44" and s: "0 < s" "s < 2 ^ 53"
  shows "\<bar>fl (fl (of_int a / of_nat s) * 100) - 100 * of_int a / of_nat s\<bar>
           < 1 / (2 * of_nat s)"
proof -
  define q :: real where "q = of_int a / of_nat s"
  define u :: real where "u = 1 / 2 ^ 53"
  define q1 where "q1 = fl q"
  define c :: real where "c = 100 * u * (2 + u)"
  have sr: "0 < real s" "real s < 2 ^ 53"
    using s by simp_all
  have ar: "1 \<le> real_of_int a" "real_of_int a \<le> 2 ^ 44"
    using a by simp_all
  have qpos: "0 < q" using ar sr by (simp add: q_def)
  have "1 / 2 ^ 53 < 1 / real s" using sr by (simp add: field_simps)
  also have "\<dots> \<le> q" using ar sr by (simp add: q_def divide_right_mono)
  finally have qlow: "1 / 2 ^ 53 < q" .
  have tiny: "power_int (2::real) (- 1022) \<le> 1 / 2 ^ 53"
    by (simp add: power_int_def field_simps)
  have upos: "0 < u" "u \<le> 1 / 2" by (simp_all add: u_def)
  have e1: "\<bar>q1 - q\<bar> \<le> q * u"
    using fl_relative_error [of q] tiny qlow by (simp add: q1_def u_def)
  have q1hi: "q1 \<le> q + q * u" using e1 by linarith
  have "q * u \<le> q * (1 / 2)" using upos qpos by (intro mult_left_mono) simp_all
  then have q1lo: "q / 2 \<le> q1" using e1 by linarith
  then have "q \<le> q1 * 100" using qpos by linarith
  then have "power_int 2 (- 1022) \<le> q1 * 100" using tiny qlow by linarith
  then have e2: "\<bar>fl (q1 * 100) - q1 * 100\<bar> \<le> q1 * 100 * u"
    using fl_relative_error [of "q1 * 100"] by (simp add: u_def)
  have "q1 * (100 * u) \<le> (q + q * u) * (100 * u)"
    using q1hi upos by (intro mult_right_mono) simp_all
  then have "\<bar>fl (q1 * 100) - 100 * q\<bar> \<le> (q + q * u) * (100 * u) + 100 * (q * u)"
    using e1 e2 by (simp add: algebra_simps)
  also have "\<dots> = q * c" by (simp add: c_def algebra_simps)
  finally have main: "\<bar>fl (q1 * 100) - 100 * q\<bar> \<le> q * c" .
  have cpos: "0 \<le> c" using upos by (simp add: c_def)
  have "2 ^ 44 * c < 1 / 2" by (simp add: c_def u_def)
  moreover have "real_of_int a * c \<le> 2 ^ 44 * c"
    using ar cpos by (intro mult_right_mono) simp_all
  ultimately have "real_of_int a * c < 1 / 2" by linarith
  then have "real_of_int a * c / real s < 1 / 2 / real s"
    using sr by (intro divide_strict_right_mono) simp_all
  then have "q * c < 1 / (2 * real s)" by (simp add: q_def)
  with main show ?thesis by (simp add: q_def q1_def)
qed

lemma rate_rounding:
  fixes a :: int and s :: nat
  assumes a: "0 \<le> a" "a \<le> 2 ^ 44" and s: "0 < s" "s < 2 ^ 53"
  shows "(frac (100 * real_of_int a / real s) \<noteq> 1 / 2 \<longrightarrow>
            Math_round (fl (fl (of_int a / of_nat s) * 100))
              = Math_round (100 * of_int a / of_nat s))
       \<and> (Math_round (fl (fl (of_int a / of_nat s) * 100))
              = Math_round (100 * of_int a / of_nat s)
          \<or> Math_round (fl (fl (of_int a / of_nat s) * 100))
              = Math_round (100 * of_int a / of_nat s) - 1)"
proof (cases "a = 0")
  case True
  then show ?thesis by (simp add: fl_def Math_round_def)
next
  case False
  then have apos: "0 < a" using a by simp
  define v :: real where "v = 100 * of_int a / of_nat s"
  define p1 where "p1 = fl (fl (of_int a / of_nat s) * 100)"
  define w where "w = v + 1 / 2"
  define N where "N = \<lfloor>w\<rfloor>"
  define d :: real where "d = 1 / (2 * of_nat s)"
  have sr: "0 < real s" using s by simp
  have dpos: "0 < d" "d \<le> 1 / 2" using s by (simp_all add: d_def field_simps)
  have close: "\<bar>p1 - v\<bar> < d"
    using rate_error [OF apos a(2) s] by (simp add: p1_def v_def d_def)
  have N: "of_int N \<le> w" "w < of_int N + 1" by (simp_all add: N_def)
  have wn: "w * (2 * real s) = of_int (200 * a + int s)"
    using sr by (simp add: w_def v_def field_simps)
  have lower: "of_int N - 1 < p1 + 1 / 2"
    using close N dpos unfolding w_def by linarith
  have gap_lo: "d \<le> w - of_int N" if "w \<noteq> of_int N"
  proof -
    have "0 < w - of_int N" using that N by linarith
    then have "0 < (w - of_int N) * (2 * real s)" using sr by simp
    moreover have "(w - of_int N) * (2 * real s) = of_int (200 * a + int s - N * (2 * int s))"
      using wn by (simp add: left_diff_distrib)
    ultimately have "0 < 200 * a + int s - N * (2 * int s)"
      by (simp only: of_int_0_less_iff)
    then have "1 \<le> 200 * a + int s - N * (2 * int s)" by linarith
    then have "1 \<le> real_of_int (200 * a + int s - N * (2 * int s))"
      by (simp only: of_int_1_le_iff)
    then have "1 \<le> (w - of_int N) * (2 * real s)"
      using wn by (simp add: left_diff_distrib)
    then show ?thesis using sr by (simp add: d_def field_simps)
  qed
  have gap_hi: "d \<le> of_int N + 1 - w"
  proof -
    have "0 < of_int N + 1 - w" using N by linarith
    then have "0 < (of_int N + 1 - w) * (2 * real s)" using sr by simp
    moreover have "(of_int N + 1 - w) * (2 * real s)
        = of_int ((N + 1) * (2 * int s) - (200 * a + int s))"
      using wn by (simp add: algebra_simps)
    ultimately have "0 < (N + 1) * (2 * int s) - (200 * a + int s)"
      by (simp only: of_int_0_less_iff)
    then have "1 \<le> (N + 1) * (2 * int s) - (200 * a + int s)" by linarith
    then have "1 \<le> real_of_int ((N + 1) * (2 * int s) - (200 * a + int s))"
      by (simp only: of_int_1_le_iff)
    then have "1 \<le> (of_int N + 1 - w) * (2 * real s)"
      using wn by (simp add: algebra_simps)
    then show ?thesis using sr by (simp add: d_def field_simps)
  qed
  have upper: "p1 + 1 / 2 < of_int N + 1"
    using close gap_hi unfolding w_def by linarith
  have exact: "\<lfloor>p1 + 1 / 2\<rfloor> = N" if "w \<noteq> of_int N"
  proof -
    have "of_int N \<le> p1 + 1 / 2" using close gap_lo [OF that] unfolding w_def by linarith
    then show ?thesis using upper by (intro floor_unique) simp_all
  qed
  have near: "\<lfloor>p1 + 1 / 2\<rfloor> = N \<or> \<lfloor>p1 + 1 / 2\<rfloor> = N - 1"
  proof -
    have "N - 1 \<le> \<lfloor>p1 + 1 / 2\<rfloor>" using lower by (simp add: le_floor_iff)
    moreover have "\<lfloor>p1 + 1 / 2\<rfloor> \<le> N" using upper by (simp add: floor_le_iff)
    ultimately show ?thesis by linarith
  qed
  have tie: "frac v = 1 / 2" if "w = of_int N"
  proof -
    have v: "v = of_int N - 1 / 2" using that unfolding w_def by linarith
    have "\<lfloor>v\<rfloor> = N - 1" unfolding v by (rule floor_unique) simp_all
    then show ?thesis unfolding frac_def using v by simp
  qed
  show ?thesis
    using exact near tie
    by (auto simp: Math_round_def p1_def [symmetric] v_def [symmetric] w_def [symmetric]
        N_def [symmetric])
qed

lemmas number_defs =
  Math_round_def fl_def ilog2_def compute_bitlen round_half_even_def Let_def

lemma simulatedResponseMinutes_half: "simulatedResponseMinutes (1 / 2) = 33"
  by (simp add: simulatedResponseMinutes_def number_defs)

text \<open>The least draw and the greatest one, \<open>1 - 2^-53\<close>, give the two ends of the range.\<close>

lemma simulatedResponseMinutes_ends:
  "simulatedResponseMinutes 0 = 5 \<and> simulatedResponseMinutes (9007199254740991 / 9007199254740992) = 60"
  by (simp add: simulatedResponseMinutes_def number_defs)

section \<open>Facts about the example states\<close>

lemmas accept_defs =
  handleAcceptUnchanged_def handleAcceptEdited_def handleAcceptUnchanged_call_def
  handleAcceptEdited_call_def handleAcceptUnchanged_draw_def handleAcceptEdited_draw_def
  accept_call_of_def Math_random_def accept_run_def accept_posted_def accept_refreshed_def

lemma ready_state_eq:
  "ready_state =
     \<lparr>tickets = [], selectedTicket = Some ticket1, suggestion = Some suggestion1,
      editedReply = ''We have refunded the second charge.'', loading = False,
      metrics = \<lparr>suggestionsShown = 1, suggestionsAccepted = 0, tagCounts = [],
                 responseTimes = []\<rparr>\<rparr>"
  by (simp add: ready_state_def handleSuggest_def handleSuggest_call_def handleSuggest_settle_def
      selectTicket_def initial_state_def initial_metrics_def reply_text_def recordShown_def
      suggestion1_def)

section \<open>The guards of the handlers\<close>

text \<open>
  Claim C9. An accept handler called while no suggestion is live or no ticket is selected,
  and \<^verbatim>\<open>handleSuggest\<close> called while no ticket is selected, return at once: no
  request is sent, nothing is alerted, and the state (metrics, suggestion, draft and the
  rest) is the one they were called in.
\<close>

theorem guards_are_noops:
  "(suggestion s = None \<or> selectedTicket s = None \<longrightarrow>
      finalize_call k rnd s = None \<and> finalize k rnd posted refreshed s = (s, []))
   \<and> (selectedTicket s = None \<longrightarrow>
      handleSuggest_call s = (s, []) \<and> handleSuggest res s = (s, []))"
  by (cases k)
    (auto simp: accept_defs handleSuggest_call_def handleSuggest_def split: option.splits)

theorem guards_are_noops_witness:
  "suggestion initial_state = None \<and> selectedTicket initial_state = None
   \<and> finalize_call Edited 0 initial_state = None
   \<and> finalize Edited 0 (Resolved ()) (Resolved None) initial_state = (initial_state, [])
   \<and> handleSuggest_call initial_state = (initial_state, [])
   \<and> handleSuggest (Resolved (Some suggestion1)) initial_state = (initial_state, [])"
  using guards_are_noops [of initial_state Edited 0 "Resolved ()" "Resolved None"
      "Resolved (Some suggestion1)"]
  by (simp add: initial_state_def)

section \<open>Recording a decision: what is sent and what is kept\<close>

text \<open>
  Claim C3. When the \<^verbatim>\<open>POST /accept\<close> of a finalisation is rejected, the handler goes
  straight to its \<^verbatim>\<open>catch\<close>: no duration is appended and the metrics are the ones the
  handler found, both for the handler run as a whole and for its continuation run in any
  state the rejection arrives in.
\<close>

theorem failed_send_appends_no_duration:
  "fst (finalize k rnd Rejected refreshed s) = s
   \<and> metrics (fst (finalize k rnd Rejected refreshed s)) = metrics s
   \<and> responseTimes (metrics (fst (accept_posted msgs c Rejected s))) = responseTimes (metrics s)
   \<and> metrics (fst (accept_posted msgs c Rejected s)) = metrics s"
  by (cases k)
    (simp_all add: handleAcceptUnchanged_def handleAcceptEdited_def accept_run_def
      accept_posted_def split: option.splits)

text \<open>
  Claim C4. A finalisation from a state with a live suggestion and a selected ticket sends
  exactly one decision. It carries the ticket's identifier and the suggestion's tags as
  they are (the empty list when the suggestion has no \<^verbatim>\<open>tags\<close> field); for the kind
  unchanged the action is \<^verbatim>\<open>accepted\<close> and the final reply is the suggestion's own
  reply text, for the kind edited the action is \<^verbatim>\<open>edited\<close> and the final reply is the
  current draft.
\<close>

theorem decision_payload_fields:
  assumes "suggestion s = Some sg" and "selectedTicket s = Some t"
  shows "\<exists>c rest.
           finalize_call k rnd s = Some c
         \<and> snd (finalize k rnd posted refreshed s) = PostAccept (ac_payload c) # rest
         \<and> PostAccept (ac_payload c) \<notin> set rest
         \<and> d_ticket_id (ac_payload c) = ticket_id t
         \<and> d_tags (ac_payload c) = tags_or_empty sg
         \<and> (\<forall>ts. p_tags sg = Some ts \<longrightarrow> d_tags (ac_payload c) = ts)
         \<and> (k = Unchanged \<longrightarrow>
               action (ac_payload c) = ''accepted''
             \<and> final_reply (ac_payload c) = p_suggestion sg)
         \<and> (k = Edited \<longrightarrow>
               action (ac_payload c) = ''edited''
             \<and> final_reply (ac_payload c) = Some (editedReply s))"
  using assms
  by (cases k; cases posted; cases refreshed)
    (simp_all add: accept_defs tags_or_empty_def Let_def)

theorem decision_payload_fields_witness:
  "suggestion ready_state = Some suggestion1 \<and> selectedTicket ready_state = Some ticket1
   \<and> p_tags suggestion1 = Some [Bare ''billing'']
   \<and> map_option ac_payload (finalize_call Unchanged (1 / 2) ready_state)
       = Some \<lparr>d_ticket_id = 1, action = ''accepted'', d_tags = [Bare ''billing''],
               response_time_min = 33,
               final_reply = Some ''We have refunded the second charge.''\<rparr>
   \<and> hd (snd (finalize Unchanged (1 / 2) (Resolved ()) (Resolved None) ready_state))
       = PostAccept \<lparr>d_ticket_id = 1, action = ''accepted'', d_tags = [Bare ''billing''],
               response_time_min = 33,
               final_reply = Some ''We have refunded the second charge.''\<rparr>
   \<and> map_option ac_payload
         (finalize_call Edited (1 / 2) (editDraft ''new text'' ready_state))
       = Some \<lparr>d_ticket_id = 1, action = ''edited'', d_tags = [Bare ''billing''],
               response_time_min = 33, final_reply = Some ''new text''\<rparr>"
  using decision_payload_fields [of ready_state suggestion1 ticket1 Unchanged "1 / 2"
      "Resolved ()" "Resolved None"]
  by (simp add: ready_state_eq accept_defs simulatedResponseMinutes_half tags_or_empty_def
      suggestion1_def ticket1_def editDraft_def)

text \<open>
  Claim C7. For a draw of \<^verbatim>\<open>Math.random()\<close> in \<open>[0, 1)\<close> the simulated duration is an
  integer from 5 to 60. Every finalisation from a state with a live suggestion and a
  selected ticket, of either kind, calls \<^verbatim>\<open>Math.random()\<close> once, sends one decision
  whose \<^verbatim>\<open>response_time_min\<close> is the duration computed from that draw, and appends
  that same value to \<^verbatim>\<open>responseTimes\<close> once the send has resolved, whatever the state
  is by then. A finalisation stopped by its guard draws nothing.
\<close>

theorem duration_measurement:
  "(0 \<le> rnd \<and> rnd < 1 \<longrightarrow>
      5 \<le> simulatedResponseMinutes rnd \<and> simulatedResponseMinutes rnd \<le> 60)
   \<and> (suggestion s = Some sg \<and> selectedTicket s = Some t \<longrightarrow>
        (\<exists>c rest.
            finalize_draw k draws n s = (Some c, Suc n)
          \<and> finalize_call k (draws n) s = Some c
          \<and> ac_minutes c = simulatedResponseMinutes (draws n)
          \<and> response_time_min (ac_payload c) = ac_minutes c
          \<and> snd (finalize k (draws n) posted refreshed s) = PostAccept (ac_payload c) # rest
          \<and> (\<forall>d. PostAccept d \<notin> set rest)
          \<and> responseTimes (metrics (fst (accept_posted msgs c (Resolved ()) s')))
              = responseTimes (metrics s') @ [response_time_min (ac_payload c)]
          \<and> responseTimes (metrics (fst (finalize k (draws n) (Resolved ()) refreshed s)))
              = responseTimes (metrics s) @ [response_time_min (ac_payload c)]))
   \<and> (suggestion s = None \<or> selectedTicket s = None \<longrightarrow>
        finalize_draw k draws n s = (None, n))"
proof -
  have range: "0 \<le> rnd \<and> rnd < 1 \<longrightarrow>
      5 \<le> simulatedResponseMinutes rnd \<and> simulatedResponseMinutes rnd \<le> 60"
    using simulatedResponseMinutes_range [of rnd] by blast
  have ready: "suggestion s = Some sg \<and> selectedTicket s = Some t \<longrightarrow>
        (\<exists>c rest.
            finalize_draw k draws n s = (Some c, Suc n)
          \<and> finalize_call k (draws n) s = Some c
          \<and> ac_minutes c = simulatedResponseMinutes (draws n)
          \<and> response_time_min (ac_payload c) = ac_minutes c
          \<and> snd (finalize k (draws n) posted refreshed s) = PostAccept (ac_payload c) # rest
          \<and> (\<forall>d. PostAccept d \<notin> set rest)
          \<and> responseTimes (metrics (fst (accept_posted msgs c (Resolved ()) s')))
              = responseTimes (metrics s') @ [response_time_min (ac_payload c)]
          \<and> responseTimes (metrics (fst (finalize k (draws n) (Resolved ()) refreshed s)))
              = responseTimes (metrics s) @ [response_time_min (ac_payload c)])"
    by (cases k; cases posted; cases refreshed)
      (auto simp: accept_defs recordDuration_def mergeMetrics_def Let_def)
  have guard: "suggestion s = None \<or> selectedTicket s = None \<longrightarrow>
        finalize_draw k draws n s = (None, n)"
    by (cases k) (auto simp: accept_defs split: option.splits)
  from range ready guard show ?thesis by blast
qed

text \<open>
  Both kinds from the example state, with a generator whose fourth value is one half:
  each makes that one draw and sends and appends 33. From the initial state nothing is
  drawn.
\<close>

theorem duration_measurement_witness:
  "(0::real) \<le> 1 / 2 \<and> (1 / 2 :: real) < 1 \<and> simulatedResponseMinutes (1 / 2) = 33
   \<and> simulatedResponseMinutes 0 = 5
   \<and> simulatedResponseMinutes (9007199254740991 / 9007199254740992) = 60
   \<and> suggestion ready_state = Some suggestion1 \<and> selectedTicket ready_state = Some ticket1
   \<and> map_prod (map_option ac_minutes) id
        (finalize_draw Unchanged (\<lambda>i. if i = 3 then 1 / 2 else 0) 3 ready_state) = (Some 33, 4)
   \<and> map_prod (map_option (response_time_min \<circ> ac_payload)) id
        (finalize_draw Unchanged (\<lambda>i. if i = 3 then 1 / 2 else 0) 3 ready_state) = (Some 33, 4)
   \<and> responseTimes
        (metrics (fst (finalize Unchanged (1 / 2) (Resolved ()) (Resolved None) ready_state)))
       = [33]
   \<and> map_prod (map_option ac_minutes) id
        (finalize_draw Edited (\<lambda>i. if i = 3 then 1 / 2 else 0) 3 ready_state) = (Some 33, 4)
   \<and> map_prod (map_option (response_time_min \<circ> ac_payload)) id
        (finalize_draw Edited (\<lambda>i. if i = 3 then 1 / 2 else 0) 3 ready_state) = (Some 33, 4)
   \<and> responseTimes
        (metrics (fst (finalize Edited (1 / 2) (Resolved ()) (Resolved None) ready_state)))
       = [33]
   \<and> suggestion initial_state = None
   \<and> finalize_draw Unchanged (\<lambda>i. 1 / 2) 3 initial_state = (None, 3)
   \<and> (\<exists>c. finalize_draw Unchanged (\<lambda>i. 1 / 2) 3 ready_state = (Some c, Suc 3)
          \<and> ac_minutes c = simulatedResponseMinutes (1 / 2)
          \<and> response_time_min (ac_payload c) = ac_minutes c
          \<and> responseTimes
               (metrics
                  (fst (finalize Unchanged (1 / 2) (Resolved ()) (Resolved None) ready_state)))
              = responseTimes (metrics ready_state) @ [response_time_min (ac_payload c)])
   \<and> (\<exists>c. finalize_draw Edited (\<lambda>i. 1 / 2) 3 ready_state = (Some c, Suc 3)
          \<and> ac_minutes c = simulatedResponseMinutes (1 / 2)
          \<and> response_time_min (ac_payload c) = ac_minutes c
          \<and> responseTimes
               (metrics
                  (fst (finalize Edited (1 / 2) (Resolved ()) (Resolved None) ready_state)))
              = responseTimes (metrics ready_state) @ [response_time_min (ac_payload c)])"
proof -
  have computed:
    "(0::real) \<le> 1 / 2 \<and> (1 / 2 :: real) < 1 \<and> simulatedResponseMinutes (1 / 2) = 33
     \<and> simulatedResponseMinutes 0 = 5
     \<and> simulatedResponseMinutes (9007199254740991 / 9007199254740992) = 60
     \<and> suggestion ready_state = Some suggestion1 \<and> selectedTicket ready_state = Some ticket1
     \<and> map_prod (map_option ac_minutes) id
          (finalize_draw Unchanged (\<lambda>i. if i = 3 then 1 / 2 else 0) 3 ready_state) = (Some 33, 4)
     \<and> map_prod (map_option (response_time_min \<circ> ac_payload)) id
          (finalize_draw Unchanged (\<lambda>i. if i = 3 then 1 / 2 else 0) 3 ready_state) = (Some 33, 4)
     \<and> responseTimes
          (metrics (fst (finalize Unchanged (1 / 2) (Resolved ()) (Resolved None) ready_state)))
         = [33]
     \<and> map_prod (map_option ac_minutes) id
          (finalize_draw Edited (\<lambda>i. if i = 3 then 1 / 2 else 0) 3 ready_state) = (Some 33, 4)
     \<and> map_prod (map_option (response_time_min \<circ> ac_payload)) id
          (finalize_draw Edited (\<lambda>i. if i = 3 then 1 / 2 else 0) 3 ready_state) = (Some 33, 4)
     \<and> responseTimes
          (metrics (fst (finalize Edited (1 / 2) (Resolved ()) (Resolved None) ready_state)))
         = [33]
     \<and> suggestion initial_state = None
     \<and> finalize_draw Unchanged (\<lambda>i. 1 / 2) 3 initial_state = (None, 3)"
    by (simp add: ready_state_eq initial_state_def accept_defs simulatedResponseMinutes_half
        simulatedResponseMinutes_ends recordDuration_def mergeMetrics_def)
  have unchanged:
    "\<exists>c. finalize_draw Unchanged (\<lambda>i. 1 / 2) 3 ready_state = (Some c, Suc 3)
          \<and> ac_minutes c = simulatedResponseMinutes (1 / 2)
          \<and> response_time_min (ac_payload c) = ac_minutes c
          \<and> responseTimes
               (metrics
                  (fst (finalize Unchanged (1 / 2) (Resolved ()) (Resolved None) ready_state)))
              = responseTimes (metrics ready_state) @ [response_time_min (ac_payload c)]"
    using duration_measurement [of "1 / 2" ready_state suggestion1 ticket1 Unchanged
        "\<lambda>i. 1 / 2" 3 "Resolved ()" "Resolved None" unchanged_msgs ready_state]
      computed
    by blast
  have edited:
    "\<exists>c. finalize_draw Edited (\<lambda>i. 1 / 2) 3 ready_state = (Some c, Suc 3)
          \<and> ac_minutes c = simulatedResponseMinutes (1 / 2)
          \<and> response_time_min (ac_payload c) = ac_minutes c
          \<and> responseTimes
               (metrics
                  (fst (finalize Edited (1 / 2) (Resolved ()) (Resolved None) ready_state)))
              = responseTimes (metrics ready_state) @ [response_time_min (ac_payload c)]"
    using duration_measurement [of "1 / 2" ready_state suggestion1 ticket1 Edited
        "\<lambda>i. 1 / 2" 3 "Resolved ()" "Resolved None" edited_msgs ready_state]
      computed
    by blast
  from computed unchanged edited show ?thesis
    by (intro conjI) (elim conjE, assumption)+
qed

text \<open>
  Claim C2, as the code has it. The session is left without a suggestion and with an
  empty draft only at the end of the \<^verbatim>\<open>try\<close> block, after the send and the metrics
  request that follows it have both resolved. When the send is rejected the handler only
  logs and alerts: the suggestion stays live and the draft keeps its text, so the same
  decision can be attempted again. The claim that the session goes idle whatever the
  outcome of the send fails on the rejected send.
\<close>

theorem finalize_leaves_ready_only_on_success:
  assumes "suggestion s = Some sg" and "selectedTicket s = Some t"
  shows "suggestion (fst (finalize k rnd (Resolved ()) (Resolved rsp) s)) = None
       \<and> editedReply (fst (finalize k rnd (Resolved ()) (Resolved rsp) s)) = ''''
       \<and> suggestion (fst (accept_refreshed msgs (Resolved rsp) s')) = None
       \<and> editedReply (fst (accept_refreshed msgs (Resolved rsp) s')) = ''''
       \<and> suggestion (fst (finalize k rnd Rejected refreshed s)) = Some sg
       \<and> editedReply (fst (finalize k rnd Rejected refreshed s)) = editedReply s
       \<and> fst (accept_posted msgs c Rejected s') = s'
       \<and> (\<exists>d msg. snd (finalize k rnd Rejected refreshed s)
                     = [PostAccept d, ConsoleError msg,
                        Alert (snd (case k of Unchanged \<Rightarrow> unchanged_msgs
                                    | Edited \<Rightarrow> edited_msgs))])"
  using assms
  by (cases k) (simp_all add: accept_defs Let_def)

theorem finalize_leaves_ready_only_on_success_witness:
  "suggestion ready_state = Some suggestion1 \<and> selectedTicket ready_state = Some ticket1
   \<and> suggestion (fst (finalize Edited (1 / 2) (Resolved ()) (Resolved None) ready_state)) = None
   \<and> editedReply (fst (finalize Edited (1 / 2) (Resolved ()) (Resolved None) ready_state)) = ''''
   \<and> suggestion (fst (finalize Edited (1 / 2) Rejected (Resolved None) ready_state))
       = Some suggestion1
   \<and> last (snd (finalize Edited (1 / 2) Rejected (Resolved None) ready_state))
       = Alert ''Failed to record edited accept. See console.''"
  using finalize_leaves_ready_only_on_success [of ready_state suggestion1 ticket1 Edited "1 / 2"
      None edited_msgs ready_state "Resolved None"]
  by (simp add: ready_state_eq accept_defs edited_msgs_def Let_def)

theorem failed_send_keeps_suggestion_armed:
  "suggestion (fst (finalize Unchanged (1 / 2) Rejected (Resolved None) ready_state))
     = Some suggestion1
   \<and> editedReply (fst (finalize Unchanged (1 / 2) Rejected (Resolved None) ready_state))
     = ''We have refunded the second charge.''
   \<and> suggestion (fst (finalize Edited (1 / 2) Rejected (Resolved None) ready_state))
     = Some suggestion1"
  by (simp add: ready_state_eq accept_defs Let_def)

section \<open>A response that arrives after the selection has changed\<close>

text \<open>
  Claim C1, as the code has it. The continuation of \<^verbatim>\<open>handleSuggest\<close> compares
  nothing with the current selection: whenever the response arrives, and whichever ticket
  is selected by then, it stores the payload as the suggestion, sets the draft to the
  payload's reply text, counts one more suggestion shown and clears the loading flag,
  and it leaves the selection alone. So a response to a request made for one ticket fills
  the suggestion and the draft of the session of the ticket selected since; the claim
  that it does not is false.
\<close>

theorem late_suggestion_response_is_applied:
  "selectedTicket (fst (handleSuggest_settle (Resolved payload) (selectTicket t2 s))) = Some t2
   \<and> suggestion (fst (handleSuggest_settle (Resolved payload) (selectTicket t2 s))) = payload
   \<and> editedReply (fst (handleSuggest_settle (Resolved payload) (selectTicket t2 s)))
       = reply_text payload
   \<and> selectedTicket (fst (handleSuggest_settle (Resolved payload) s')) = selectedTicket s'
   \<and> suggestion (fst (handleSuggest_settle (Resolved payload) s')) = payload
   \<and> editedReply (fst (handleSuggest_settle (Resolved payload) s')) = reply_text payload
   \<and> suggestionsShown (metrics (fst (handleSuggest_settle (Resolved payload) s')))
       = suggestionsShown (metrics s') + 1
   \<and> loading (fst (handleSuggest_settle (Resolved payload) s')) = False"
  by (simp add: handleSuggest_settle_def selectTicket_def recordShown_def)

text \<open>
  The run that refutes the claim: ticket 1 is selected and a suggestion requested, ticket 2
  is selected while the request is in flight, then the response for ticket 1 arrives.
\<close>

theorem late_suggestion_response_overwrites_new_selection:
  "snd (handleSuggest_call (selectTicket ticket1 initial_state)) = [PostSuggest 1]
   \<and> suggestion
        (selectTicket ticket2 (fst (handleSuggest_call (selectTicket ticket1 initial_state))))
       = None
   \<and> selectedTicket
        (fst (handleSuggest_settle (Resolved (Some suggestion1))
               (selectTicket ticket2
                  (fst (handleSuggest_call (selectTicket ticket1 initial_state))))))
       = Some ticket2
   \<and> suggestion
        (fst (handleSuggest_settle (Resolved (Some suggestion1))
               (selectTicket ticket2
                  (fst (handleSuggest_call (selectTicket ticket1 initial_state))))))
       = Some suggestion1
   \<and> editedReply
        (fst (handleSuggest_settle (Resolved (Some suggestion1))
               (selectTicket ticket2
                  (fst (handleSuggest_call (selectTicket ticket1 initial_state))))))
       = ''We have refunded the second charge.''"
  by (simp add: handleSuggest_call_def handleSuggest_settle_def selectTicket_def
      initial_state_def reply_text_def suggestion1_def ticket1_def)

section \<open>Refreshing the metrics: the poll and the refresh after a decision\<close>

text \<open>
  The poll. A resolved poll whose response carries both fields puts the response's
  accepted-count and tag mapping in place of the old ones; whatever the response, the
  shown-count and the list of durations stay as they were. A rejected poll changes
  nothing, alerts nothing and logs nothing.
\<close>

lemma poll_refresh_frame:
  "poll_settle (Resolved (Some \<lparr>suggestions_accepted = Some a, tag_counts = Some tc\<rparr>)) s
     = (s\<lparr>metrics := (metrics s)\<lparr>suggestionsAccepted := a, tagCounts := tc\<rparr>\<rparr>, [])
   \<and> suggestionsShown (metrics (fst (poll_settle res s))) = suggestionsShown (metrics s)
   \<and> responseTimes (metrics (fst (poll_settle res s))) = responseTimes (metrics s)
   \<and> poll_settle Rejected s = (s, [])"
  by (cases res) (simp_all add: poll_settle_def mergeMetrics_def Let_def)

text \<open>
  Claim C8, where the code departs from it. The metrics request that follows a recorded
  decision is awaited inside the \<^verbatim>\<open>try\<close> block of the send, so its rejection reaches
  the \<^verbatim>\<open>catch\<close> written for the send: the failure is logged and alerted as a failure
  to record the decision, and the suggestion stays live, although the decision was
  recorded and its duration appended. The metrics are left as they were at that moment,
  as the claim says, but the error does not stay silent. The rejected poll is silent.
\<close>

theorem refresh_after_decision_failure_is_reported:
  "accept_refreshed msgs Rejected s = (s, [ConsoleError (fst msgs), Alert (snd msgs)])
   \<and> snd (finalize Unchanged (1 / 2) (Resolved ()) Rejected ready_state)
       = [PostAccept \<lparr>d_ticket_id = 1, action = ''accepted'', d_tags = [Bare ''billing''],
                      response_time_min = 33,
                      final_reply = Some ''We have refunded the second charge.''\<rparr>,
          GetMetrics 1,
          ConsoleError ''Error accepting suggestion:'',
          Alert ''Failed to record accept. See console.'']
   \<and> suggestion (fst (finalize Unchanged (1 / 2) (Resolved ()) Rejected ready_state))
       = Some suggestion1
   \<and> metrics (fst (finalize Unchanged (1 / 2) (Resolved ()) Rejected ready_state))
       = (metrics ready_state)\<lparr>responseTimes := [33]\<rparr>
   \<and> last (snd (finalize Edited (1 / 2) (Resolved ()) Rejected ready_state))
       = Alert ''Failed to record edited accept. See console.''
   \<and> poll_settle Rejected s = (s, [])"
  by (simp add: ready_state_eq accept_defs simulatedResponseMinutes_half recordDuration_def
      unchanged_msgs_def edited_msgs_def poll_settle_def tags_or_empty_def suggestion1_def
      ticket1_def)

text \<open>
  Claim C10. A field that the response of a resolved metrics request lacks keeps its
  previous local value, a field it has is replaced, and an empty response body changes
  nothing; this is the merge of both the poll and the refresh that follows a decision.
\<close>

theorem missing_fields_retained:
  "suggestionsAccepted (mergeMetrics (Some \<lparr>suggestions_accepted = None, tag_counts = tc\<rparr>) prev)
     = suggestionsAccepted prev
   \<and> tagCounts (mergeMetrics (Some \<lparr>suggestions_accepted = a, tag_counts = None\<rparr>) prev)
     = tagCounts prev
   \<and> suggestionsAccepted
        (mergeMetrics (Some \<lparr>suggestions_accepted = Some a', tag_counts = tc\<rparr>) prev)
     = a'
   \<and> tagCounts (mergeMetrics (Some \<lparr>suggestions_accepted = a, tag_counts = Some tc'\<rparr>) prev)
     = tc'
   \<and> mergeMetrics None prev = prev
   \<and> metrics (fst (poll_settle (Resolved rsp) s)) = mergeMetrics rsp (metrics s)
   \<and> metrics (fst (accept_refreshed msgs (Resolved rsp) s)) = mergeMetrics rsp (metrics s)"
  by (simp add: mergeMetrics_def poll_settle_def accept_refreshed_def Let_def)

section \<open>The dashboard's derived values\<close>

text \<open>
  Claim C5, as the code has it. The acceptance rate is 0 when nothing has been shown.
  Otherwise it is \<^verbatim>\<open>Math.round\<close> of the binary64 product of the binary64 quotient
  accepted/shown and 100. For an accepted-count from 0 to \<open>2^44\<close> and a shown-count below
  \<open>2^53\<close> this is the exact value of 100 accepted / shown rounded to the nearest integer
  whenever that value is not halfway between two integers, and at a tie it is that
  rounding or one less. 3 accepted of 10 shown give 30. The claim that the rate is the
  rounded exact value for every snapshot fails at ties.
\<close>

theorem acceptanceRate_binary64:
  "(suggestionsShown m = 0 \<longrightarrow> acceptanceRate m = 0)
   \<and> (0 < suggestionsShown m \<and> suggestionsShown m < 2 ^ 53
        \<and> 0 \<le> suggestionsAccepted m \<and> suggestionsAccepted m \<le> 2 ^ 44 \<longrightarrow>
        (frac (100 * real_of_int (suggestionsAccepted m) / real (suggestionsShown m)) \<noteq> 1 / 2
           \<longrightarrow> acceptanceRate m
                 = Math_round (100 * real_of_int (suggestionsAccepted m)
                                 / real (suggestionsShown m)))
      \<and> (acceptanceRate m
            = Math_round (100 * real_of_int (suggestionsAccepted m) / real (suggestionsShown m))
         \<or> acceptanceRate m
            = Math_round (100 * real_of_int (suggestionsAccepted m) / real (suggestionsShown m))
              - 1))
   \<and> acceptanceRate (m\<lparr>suggestionsShown := 10, suggestionsAccepted := 3\<rparr>) = 30"
proof -
  have zero: "suggestionsShown m = 0 \<longrightarrow> acceptanceRate m = 0"
    by (simp add: acceptanceRate_def)
  have pos: "0 < suggestionsShown m \<and> suggestionsShown m < 2 ^ 53
        \<and> 0 \<le> suggestionsAccepted m \<and> suggestionsAccepted m \<le> 2 ^ 44 \<longrightarrow>
        (frac (100 * real_of_int (suggestionsAccepted m) / real (suggestionsShown m)) \<noteq> 1 / 2
           \<longrightarrow> acceptanceRate m
                 = Math_round (100 * real_of_int (suggestionsAccepted m)
                                 / real (suggestionsShown m)))
      \<and> (acceptanceRate m
            = Math_round (100 * real_of_int (suggestionsAccepted m) / real (suggestionsShown m))
         \<or> acceptanceRate m
            = Math_round (100 * real_of_int (suggestionsAccepted m) / real (suggestionsShown m))
              - 1)"
    using rate_rounding [of "suggestionsAccepted m" "suggestionsShown m"]
    by (simp add: acceptanceRate_def)
  have ten: "acceptanceRate (m\<lparr>suggestionsShown := 10, suggestionsAccepted := 3\<rparr>) = 30"
    by (simp add: acceptanceRate_def number_defs)
  from zero pos ten show ?thesis by blast
qed

theorem acceptanceRate_binary64_witness:
  "suggestionsShown initial_metrics = 0 \<and> acceptanceRate initial_metrics = 0
   \<and> acceptanceRate (initial_metrics\<lparr>suggestionsAccepted := 7\<rparr>) = 0
   \<and> (0::nat) < 3 \<and> (3::nat) < 2 ^ 53 \<and> (0::int) \<le> 2 \<and> (2::int) \<le> 2 ^ 44
   \<and> frac (100 * real_of_int 2 / real 3) \<noteq> 1 / 2
   \<and> Math_round (100 * real_of_int 2 / real 3) = 67
   \<and> acceptanceRate (initial_metrics\<lparr>suggestionsShown := 3, suggestionsAccepted := 2\<rparr>) = 67"
  using acceptanceRate_binary64 [of initial_metrics]
    acceptanceRate_binary64 [of "initial_metrics\<lparr>suggestionsAccepted := 7\<rparr>"]
    acceptanceRate_binary64 [of "initial_metrics\<lparr>suggestionsShown := 3, suggestionsAccepted := 2\<rparr>"]
  by (simp add: initial_metrics_def Math_round_def frac_def)

text \<open>
  23 accepted of 40 shown: the quotient rounds to a binary64 value below 0.575, the
  product to one below 57.5, and the rate is 57, while 100 * 23 / 40 is 57.5 and rounds
  to 58, under either treatment of the tie and also when the product is taken first.
\<close>

theorem acceptanceRate_tie_23_of_40:
  "acceptanceRate (initial_metrics\<lparr>suggestionsShown := 40, suggestionsAccepted := 23\<rparr>) = 57
   \<and> Math_round (100 * real_of_int 23 / real 40) = 58
   \<and> round_half_even (100 * real_of_int 23 / real 40) = 58
   \<and> Math_round (fl (fl (100 * real_of_int 23) / real 40)) = 58"
  by (simp add: acceptanceRate_def initial_metrics_def number_defs)

text \<open>
  The order of the top tags: \<open>Object_entries\<close> keeps every entry, lists the array-index
  names first in ascending numeric order and keeps the order of the other names, and the
  sort is a stable descending sort.
\<close>

lemma Object_entries_mset: "mset (Object_entries obj) = mset obj"
  by (simp add: Object_entries_def)

lemma Object_entries_plain:
  "list_all (\<lambda>e. \<not> is_array_index (fst e)) obj \<Longrightarrow> Object_entries obj = obj"
  by (simp add: Object_entries_def list_all_iff filter_empty_conv filter_id_conv)

lemma Object_entries_other_keys:
  "filter (\<lambda>e. \<not> is_array_index (fst e)) (Object_entries obj)
     = filter (\<lambda>e. \<not> is_array_index (fst e)) obj"
  by (simp add: Object_entries_def filter_sort filter_empty_conv)

lemma topEntries_full:
  "topEntries (length obj) obj = sort_by_count_desc (Object_entries obj)"
proof -
  have "length (sort_by_count_desc (Object_entries obj)) = length obj"
    using Object_entries_mset [of obj] by (metis sort_by_count_desc_def length_sort size_mset)
  then show ?thesis by (simp add: topEntries_def)
qed

lemma sort_by_count_desc_sorted:
  "sorted_wrt (\<lambda>x y. snd y \<le> snd x) (sort_by_count_desc es)"
proof -
  have "sorted (map (\<lambda>e. - snd e) (sort_by_count_desc es))"
    unfolding sort_by_count_desc_def by (rule sorted_sort_key)
  then show ?thesis by (simp add: sorted_map)
qed

lemma sort_by_count_desc_stable:
  "filter (\<lambda>e. snd e = c) (sort_by_count_desc es) = filter (\<lambda>e. snd e = c) es"
  using sort_key_stable [of "\<lambda>e. - snd e" "- c" es]
  by (simp add: sort_by_count_desc_def)

lemmas topTags_defs =
  topTags_def topEntries_def sort_by_count_desc_def Object_entries_def is_array_index_def
  is_digit_def decimal_value_def number_text_def digits_of.simps digit_char_def

text \<open>
  Claim C6, as the code has it. The top \<open>n\<close> entries are the first \<open>n\<close> of the list of
  all entries in descending order of count, entries of equal count standing in the order
  in which \<^verbatim>\<open>Object.entries\<close> lists them. That listing puts the names that are array
  indices first, in ascending order of their numeric value, and after them the other
  names in the insertion order of the mapping; for a mapping without array-index names
  it is the insertion order throughout. The dashboard shows the top five, each as the
  name followed by the count in parentheses. For billing 5, bug 5, ui 2 the first two
  are billing and bug. The claim that ties always follow the insertion order fails for a
  name such as 404.
\<close>

theorem topTags_order:
  "topEntries n obj = take n (topEntries (length obj) obj)
   \<and> mset (topEntries (length obj) obj) = mset obj
   \<and> sorted_wrt (\<lambda>x y. snd y \<le> snd x) (topEntries (length obj) obj)
   \<and> (\<forall>c. filter (\<lambda>e. snd e = c) (topEntries (length obj) obj)
            = filter (\<lambda>e. snd e = c) (Object_entries obj))
   \<and> Object_entries obj
       = filter (\<lambda>e. is_array_index (fst e)) (Object_entries obj)
         @ filter (\<lambda>e. \<not> is_array_index (fst e)) obj
   \<and> sorted (map (\<lambda>e. decimal_value (fst e))
                (filter (\<lambda>e. is_array_index (fst e)) (Object_entries obj)))
   \<and> mset (Object_entries obj) = mset obj
   \<and> filter (\<lambda>e. \<not> is_array_index (fst e)) (Object_entries obj)
       = filter (\<lambda>e. \<not> is_array_index (fst e)) obj
   \<and> (list_all (\<lambda>e. \<not> is_array_index (fst e)) obj \<longrightarrow> Object_entries obj = obj)
   \<and> map fst (topEntries 2 [(''billing'', 5), (''bug'', 5), (''ui'', 2)]) = [''billing'', ''bug'']
   \<and> topTags (m\<lparr>tagCounts := [(''billing'', 5), (''bug'', 5), (''ui'', 2)]\<rparr>)
       = ''billing (5), bug (5), ui (2)''"
proof -
  have "topEntries n obj = take n (topEntries (length obj) obj)"
    by (simp add: topEntries_full) (simp add: topEntries_def)
  moreover have "mset (topEntries (length obj) obj) = mset obj"
    by (simp add: topEntries_full sort_by_count_desc_def Object_entries_mset)
  moreover have "map fst (topEntries 2 [(''billing'', 5), (''bug'', 5), (''ui'', 2)])
      = [''billing'', ''bug'']"
    by (simp add: topTags_defs)
  moreover have "topTags (m\<lparr>tagCounts := [(''billing'', 5), (''bug'', 5), (''ui'', 2)]\<rparr>)
       = ''billing (5), bug (5), ui (2)''"
    by (simp add: topTags_defs)
  moreover have "Object_entries obj
       = filter (\<lambda>e. is_array_index (fst e)) (Object_entries obj)
         @ filter (\<lambda>e. \<not> is_array_index (fst e)) obj"
    by (simp add: Object_entries_def filter_sort filter_empty_conv)
  moreover have "sorted (map (\<lambda>e. decimal_value (fst e))
                (filter (\<lambda>e. is_array_index (fst e)) (Object_entries obj)))"
    by (simp add: Object_entries_def filter_sort filter_empty_conv)
  ultimately show ?thesis
    by (simp add: topEntries_full sort_by_count_desc_sorted sort_by_count_desc_stable
        Object_entries_plain Object_entries_other_keys Object_entries_mset)
qed

text \<open>
  A mapping without array-index names, and one with the names 404 and 7 inserted after
  bug: 7 and 404 come first, 7 before 404, then bug.
\<close>

theorem topTags_order_witness:
  "list_all (\<lambda>e. \<not> is_array_index (fst e))
        [(''ui'', 2 :: int), (''billing'', 5), (''bug'', 5)]
   \<and> topEntries 3 [(''ui'', 2), (''billing'', 5), (''bug'', 5)]
       = [(''billing'', 5), (''bug'', 5), (''ui'', 2)]
   \<and> topEntries 2 [(''ui'', 2), (''billing'', 5), (''bug'', 5)]
       = [(''billing'', 5), (''bug'', 5)]
   \<and> topEntries 2 [(''ui'', 2), (''bug'', 5), (''billing'', 5)]
       = [(''bug'', 5), (''billing'', 5)]
   \<and> Object_entries [(''bug'', 5), (''404'', 5), (''7'', 5), (''ui'', 2), (''007'', 9)]
       = [(''7'', 5), (''404'', 5), (''bug'', 5), (''ui'', 2), (''007'', 9)]
   \<and> filter (\<lambda>e. is_array_index (fst e))
        (Object_entries [(''bug'', 5), (''404'', 5), (''7'', 5), (''ui'', 2), (''007'', 9)])
       = [(''7'', 5), (''404'', 5)]
   \<and> topEntries 4 [(''bug'', 5), (''404'', 5), (''7'', 5), (''ui'', 2), (''007'', 9)]
       = [(''007'', 9), (''7'', 5), (''404'', 5), (''bug'', 5)]
   \<and> Object_entries [(''ui'', 2), (''billing'', 5), (''bug'', 5)]
       = [(''ui'', 2), (''billing'', 5), (''bug'', 5)]
   \<and> sorted (map (\<lambda>e. decimal_value (fst e))
                (filter (\<lambda>e. is_array_index (fst e))
                   (Object_entries
                      [(''bug'', 5), (''404'', 5), (''7'', 5), (''ui'', 2), (''007'', 9)])))"
proof -
  have computed:
    "list_all (\<lambda>e. \<not> is_array_index (fst e))
        [(''ui'', 2 :: int), (''billing'', 5), (''bug'', 5)]
     \<and> topEntries 3 [(''ui'', 2), (''billing'', 5), (''bug'', 5)]
         = [(''billing'', 5), (''bug'', 5), (''ui'', 2)]
     \<and> topEntries 2 [(''ui'', 2), (''billing'', 5), (''bug'', 5)]
         = [(''billing'', 5), (''bug'', 5)]
     \<and> topEntries 2 [(''ui'', 2), (''bug'', 5), (''billing'', 5)]
         = [(''bug'', 5), (''billing'', 5)]
     \<and> Object_entries [(''bug'', 5), (''404'', 5), (''7'', 5), (''ui'', 2), (''007'', 9)]
         = [(''7'', 5), (''404'', 5), (''bug'', 5), (''ui'', 2), (''007'', 9)]
     \<and> filter (\<lambda>e. is_array_index (fst e))
          (Object_entries [(''bug'', 5), (''404'', 5), (''7'', 5), (''ui'', 2), (''007'', 9)])
         = [(''7'', 5), (''404'', 5)]
     \<and> topEntries 4 [(''bug'', 5), (''404'', 5), (''7'', 5), (''ui'', 2), (''007'', 9)]
         = [(''007'', 9), (''7'', 5), (''404'', 5), (''bug'', 5)]"
    by (simp add: topTags_defs)
  have plain:
    "Object_entries [(''ui'', 2), (''billing'', 5), (''bug'', 5)]
       = [(''ui'', 2), (''billing'', 5), (''bug'', 5)]"
    using topTags_order [of 2 "[(''ui'', 2), (''billing'', 5), (''bug'', 5)]" initial_metrics]
      computed
    by blast
  have ascending:
    "sorted (map (\<lambda>e. decimal_value (fst e))
               (filter (\<lambda>e. is_array_index (fst e))
                  (Object_entries
                     [(''bug'', 5), (''404'', 5), (''7'', 5), (''ui'', 2), (''007'', 9)])))"
    using topTags_order [of 4 "[(''bug'', 5), (''404'', 5), (''7'', 5), (''ui'', 2), (''007'', 9)]"
        initial_metrics]
    by blast
  from computed plain ascending show ?thesis
    by (intro conjI) (elim conjE, assumption)+
qed

text \<open>The tag 404 is inserted after bug, has the same count, and is listed first.\<close>

theorem topTags_array_index_name_first:
  "map fst (topEntries 2 [(''bug'', 5), (''404'', 5)]) = [''404'', ''bug'']
   \<and> topTags (initial_metrics\<lparr>tagCounts := [(''bug'', 5), (''404'', 5)]\<rparr>) = ''404 (5), bug (5)''"
  by (simp add: topTags_defs)

end
